theory Spec2Isabelle
  imports Complex_Main "HOL-Library.AList"
begin

section \<open>Values, errors and the ambient environment\<close>

text \<open>
  The values handed to the cache are JavaScript values of type \<^verbatim>\<open>unknown\<close>. The model
  keeps the shapes that \<^verbatim>\<open>isNil\<close> and the JSON functions distinguish.
\<close>

datatype jsvalue =
    JUndefined
  | JNull
  | JBool bool
  | JNum int
  | JStr string
  | JArr "jsvalue list"
  | JObj "(string \<times> jsvalue) list"

text \<open>lodash \<^verbatim>\<open>isNil\<close>: true for \<^verbatim>\<open>null\<close> and \<^verbatim>\<open>undefined\<close> only.\<close>

fun isNil :: "jsvalue \<Rightarrow> bool" where
  "isNil JUndefined = True"
| "isNil JNull = True"
| "isNil v = False"

text \<open>
  A JavaScript \<^verbatim>\<open>number\<close>, as far as the code tells numbers apart: a finite value (both
  zeros are \<open>Num 0\<close>), an infinity, or \<^verbatim>\<open>NaN\<close>. It is truthy unless it is zero or
  \<^verbatim>\<open>NaN\<close>.
\<close>

datatype number = Num rat | PosInfinity | NegInfinity | NaN

fun truthy :: "number \<Rightarrow> bool" where
  "truthy (Num q) = (q \<noteq> 0)"
| "truthy PosInfinity = True"
| "truthy NegInfinity = True"
| "truthy NaN = False"

text \<open>
  Every \<^verbatim>\<open>throw new Error(...)\<close> of the sources is a constructor; \<open>Upstream\<close> is an error
  raised by the remote-store client (a rejected command or a failed round trip) and carries
  the client's message.
\<close>

datatype error =
    NotInitialized
  | NotConnected
  | InvalidValue
  | ConnectionTimeout
  | PartialBulkFailure nat nat
  | SaveFailed string
  | Upstream string

fun show_nat :: "nat \<Rightarrow> string" where
  "show_nat n =
     (if n < 10 then [''0123456789'' ! n]
      else show_nat (n div 10) @ [''0123456789'' ! (n mod 10)])"

declare show_nat.simps [simp del]

fun message :: "error \<Rightarrow> string" where
  "message NotInitialized =
     ''Cache is not initialized. Please provide configuration for the first call.''"
| "message NotConnected = ''Redis cache is not connected''"
| "message InvalidValue = ''Value is null or undefined''"
| "message ConnectionTimeout = ''Connection timeout''"
| "message (PartialBulkFailure k n) =
     ''Failed to set '' @ show_nat k @ '' out of '' @ show_nat n @ '' items''"
| "message (SaveFailed m) = ''Failed to save item: '' @ m"
| "message (Upstream m) = m"

text \<open>
  What the code reads from outside the repository: \<^verbatim>\<open>process.env.NODE_ENV\<close> and the two
  JSON built-ins. \<open>stringify\<close> is the text the client sends for a value; \<open>parse\<close> is
  \<open>None\<close> where \<^verbatim>\<open>JSON.parse\<close> throws.
\<close>

record env =
  NODE_ENV :: "string option"
  stringify :: "jsvalue \<Rightarrow> string"
  parse :: "string \<Rightarrow> jsvalue option"

section \<open>The remote store and its client\<close>

text \<open>
  The remote store is a collaborator. Its model holds the text and the expiry (seconds, when
  one was given) stored at each physical key, the commands it answers with an error
  (\<open>refuses\<close>), its pattern matcher for \<^verbatim>\<open>KEYS\<close>, and the cause that makes a round
  trip fail outright (\<open>outage\<close>).
\<close>

datatype command =
    SET string string
  | SETEX string number string
  | DEL string

datatype reply = OK | Count nat

record server =
  store :: "(string \<times> string \<times> number option) list"
  refuses :: "command \<Rightarrow> string option"
  matches :: "string \<Rightarrow> string \<Rightarrow> bool"
  outage :: "string option"

fun apply_command :: "command \<Rightarrow> (string \<times> string \<times> number option) list
    \<Rightarrow> reply \<times> (string \<times> string \<times> number option) list" where
  "apply_command (SET k v) st = (OK, AList.update k (v, None) st)"
| "apply_command (SETEX k t v) st = (OK, AList.update k (v, Some t) st)"
| "apply_command (DEL k) st =
     (Count (if map_of st k = None then 0 else 1), AList.delete k st)"

text \<open>One command at the server: an error pair and no effect, or a result pair and the effect.\<close>

definition submit :: "command \<Rightarrow> server \<Rightarrow> (error option \<times> reply option) \<times> server" where
  "submit cmd sv =
     (case refuses sv cmd of
        Some msg \<Rightarrow> ((Some (Upstream msg), None), sv)
      | None \<Rightarrow>
          (case apply_command cmd (store sv) of
             (r, st) \<Rightarrow> ((None, Some r), sv\<lparr>store := st\<rparr>)))"

text \<open>A pipelined batch: the commands run in submission order, one result pair each.\<close>

fun exec :: "command list \<Rightarrow> server \<Rightarrow> (error option \<times> reply option) list \<times> server" where
  "exec [] sv = ([], sv)"
| "exec (cmd # cmds) sv =
     (case submit cmd sv of
        (r, sv') \<Rightarrow> (case exec cmds sv' of (rs, sv'') \<Rightarrow> (r # rs, sv'')))"

section \<open>The connection manager\<close>

text \<open>
  The class \<^verbatim>\<open>Cache\<close> of \<^verbatim>\<open>cache.ts\<close>, in the version that reads the test flag from
  \<^verbatim>\<open>process.env.NODE_ENV\<close>. Logging is left out: no operation depends on it.
\<close>

record cacheConfig =
  host :: string
  port :: "nat option"
  username :: "string option"
  password :: "string option"
  tlsEnabled :: "bool option"
  connectTimeout :: "nat option"

record redisOptions =
  opt_username :: "string option"
  opt_password :: "string option"
  opt_port :: nat
  opt_host :: string
  opt_connectTimeout :: nat
  opt_disconnectTimeout :: nat
  opt_enableOfflineQueue :: bool
  opt_tls :: bool

text \<open>
  A \<^verbatim>\<open>Redis\<close> object as \<^verbatim>\<open>connect\<close> leaves it: the options it was built with, the
  \<^verbatim>\<open>Cache\<close> object and the promise its two handlers close over, the pending
  establishment timer (milliseconds), how often \<^verbatim>\<open>setupListeners\<close> has attached the
  steady-state listeners, and whether \<^verbatim>\<open>disconnect()\<close> has been called on it.
\<close>

record client =
  options :: redisOptions
  owner :: nat
  promise :: nat
  timer :: "nat option"
  steady :: nat
  disconnected :: bool

record cache =
  config :: cacheConfig
  redis :: "nat option"
  isReady :: bool
  connectPromise :: "nat option"

datatype pstate = Pending | Resolved | Rejected error

text \<open>
  Objects are held by reference: \<open>caches\<close>, \<open>clients\<close> and \<open>promises\<close> are the heaps
  of \<^verbatim>\<open>Cache\<close>, \<^verbatim>\<open>Redis\<close> and \<^verbatim>\<open>Promise\<close> objects, each with the number
  allocated so far; \<open>Cache_instance\<close> is the static field \<^verbatim>\<open>Cache.instance\<close>.
\<close>

record world =
  Cache_instance :: "nat option"
  caches :: "nat \<Rightarrow> cache"
  ncaches :: nat
  clients :: "nat \<Rightarrow> client"
  nclients :: nat
  promises :: "nat \<Rightarrow> pstate"
  npromises :: nat
  server :: server

definition upd :: "nat \<Rightarrow> (cache \<Rightarrow> cache) \<Rightarrow> world \<Rightarrow> world" where
  "upd this f w = w\<lparr>caches := (caches w)(this := f (caches w this))\<rparr>"

definition getHost :: "env \<Rightarrow> cacheConfig \<Rightarrow> string" where
  "getHost e cfg = (if NODE_ENV e = Some ''test'' then ''localhost'' else host cfg)"

definition getKey :: "env \<Rightarrow> string \<Rightarrow> string" where
  "getKey e key = (if NODE_ENV e = Some ''test'' then ''test:'' @ key else key)"

text \<open>lodash \<^verbatim>\<open>isEmpty\<close> on an optional string: true when it is missing or has no character.\<close>

definition isEmpty :: "string option \<Rightarrow> bool" where
  "isEmpty s = (case s of None \<Rightarrow> True | Some t \<Rightarrow> t = [])"

text \<open>
  \<^verbatim>\<open>getRedisConfig\<close>, for a numeric port. The retry callback and the request cap are left
  to the client, which alone reads them.
\<close>

definition getRedisConfig :: "env \<Rightarrow> cacheConfig \<Rightarrow> redisOptions" where
  "getRedisConfig e cfg =
     \<lparr> opt_username = (if \<not> isEmpty (username cfg) then username cfg else None),
       opt_password = (if \<not> isEmpty (password cfg) then password cfg else None),
       opt_port = (case port cfg of None \<Rightarrow> 6379 | Some n \<Rightarrow> n),
       opt_host = getHost e cfg,
       opt_connectTimeout = (case connectTimeout cfg of None \<Rightarrow> 10000 | Some t \<Rightarrow> t),
       opt_disconnectTimeout = 2000,
       opt_enableOfflineQueue = False,
       opt_tls = (tlsEnabled cfg = Some True) \<rparr>"

definition new_Cache :: "cacheConfig \<Rightarrow> cache" where
  "new_Cache cfg = \<lparr> config = cfg, redis = None, isReady = False, connectPromise = None \<rparr>"

definition getInstance :: "cacheConfig option \<Rightarrow> world \<Rightarrow> (error + nat) \<times> world" where
  "getInstance cfg w =
     (if Cache_instance w = None \<and> cfg = None then (Inl NotInitialized, w)
      else
        let w' = (case (Cache_instance w, cfg) of
                    (None, Some c) \<Rightarrow>
                      w\<lparr> caches := (caches w)(ncaches w := new_Cache c),
                         ncaches := Suc (ncaches w),
                         Cache_instance := Some (ncaches w) \<rparr>
                  | _ \<Rightarrow> w)
        in (case Cache_instance w' of
              Some i \<Rightarrow> (Inr i, w')
            | None \<Rightarrow> (Inl NotInitialized, w')))"

definition cacheInstance :: "cacheConfig option \<Rightarrow> world \<Rightarrow> (error + nat) \<times> world" where
  "cacheInstance cfg w = getInstance cfg w"

subsection \<open>Connecting\<close>

text \<open>Settling a promise: the first \<^verbatim>\<open>resolve\<close> or \<^verbatim>\<open>reject\<close> wins, later ones do nothing.\<close>

definition resolve :: "nat \<Rightarrow> world \<Rightarrow> world" where
  "resolve p w =
     (if promises w p = Pending then w\<lparr>promises := (promises w)(p := Resolved)\<rparr> else w)"

definition reject :: "nat \<Rightarrow> error \<Rightarrow> world \<Rightarrow> world" where
  "reject p err w =
     (if promises w p = Pending then w\<lparr>promises := (promises w)(p := Rejected err)\<rparr> else w)"

definition new_Redis :: "redisOptions \<Rightarrow> nat \<Rightarrow> nat \<Rightarrow> client" where
  "new_Redis opts this p =
     \<lparr> options = opts, owner = this, promise = p, timer = Some 5000, steady = 0,
       disconnected = False \<rparr>"

text \<open>
  What a call of the asynchronous \<^verbatim>\<open>connect\<close> has done when it gives control back:
  returned at once, returned the promise in flight, or started an attempt and suspended at
  \<^verbatim>\<open>await\<close> with its \<^verbatim>\<open>finally\<close> block pending.
\<close>

datatype call = Returned | Returns nat | Awaits nat

text \<open>
  The synchronous part of \<^verbatim>\<open>connect\<close>, up to its first \<^verbatim>\<open>await\<close>. \<open>ctor\<close> is the
  error the \<^verbatim>\<open>Redis\<close> constructor throws, if it throws.
\<close>

definition connect :: "env \<Rightarrow> error option \<Rightarrow> nat \<Rightarrow> world \<Rightarrow> call \<times> world" where
  "connect e ctor this w =
     (if isReady (caches w this) \<and> redis (caches w this) \<noteq> None then (Returned, w)
      else
        (case connectPromise (caches w this) of
           Some p \<Rightarrow> (Returns p, w)
         | None \<Rightarrow>
             let p = npromises w;
                 w1 = w\<lparr> promises := (promises w)(p := Pending), npromises := Suc p \<rparr>;
                 w2 = (case ctor of
                         Some err \<Rightarrow> reject p err w1
                       | None \<Rightarrow>
                           upd this (\<lambda>c. c\<lparr>redis := Some (nclients w1)\<rparr>)
                             (w1\<lparr> clients := (clients w1)
                                     (nclients w1 :=
                                        new_Redis (getRedisConfig e (config (caches w1 this)))
                                          this p),
                                  nclients := Suc (nclients w1) \<rparr>))
             in (Awaits p, upd this (\<lambda>c. c\<lparr>connectPromise := Some p\<rparr>) w2)))"

text \<open>The \<^verbatim>\<open>finally\<close> block of the call that started the attempt, run once the promise has settled.\<close>

definition connect_finally :: "nat \<Rightarrow> world \<Rightarrow> world" where
  "connect_finally this w = upd this (\<lambda>c. c\<lparr>connectPromise := None\<rparr>) w"


definition setupListeners :: "nat \<Rightarrow> world \<Rightarrow> world" where
  "setupListeners h w = w\<lparr>clients := (clients w)(h := (clients w h)\<lparr>steady := Suc (steady (clients w h))\<rparr>)\<rparr>"

definition clearTimeout :: "nat \<Rightarrow> world \<Rightarrow> world" where
  "clearTimeout h w = w\<lparr>clients := (clients w)(h := (clients w h)\<lparr>timer := None\<rparr>)\<rparr>"

definition disconnect :: "nat \<Rightarrow> world \<Rightarrow> world" where
  "disconnect h w = w\<lparr>clients := (clients w)(h := (clients w h)\<lparr>disconnected := True\<rparr>)\<rparr>"

text \<open>
  The events of client \<open>h\<close>, as the handlers registered by \<^verbatim>\<open>connect\<close> and by
  \<^verbatim>\<open>setupListeners\<close> treat them. A \<^verbatim>\<open>ready\<close> event whose handler finds no handle stops
  at \<^verbatim>\<open>setupListeners\<close> and never reaches \<^verbatim>\<open>resolve\<close>.
\<close>

definition on_ready :: "nat \<Rightarrow> world \<Rightarrow> world" where
  "on_ready h w =
     (let this = owner (clients w h);
          w1 = clearTimeout h w;
          w2 = upd this (\<lambda>c. c\<lparr>isReady := True\<rparr>) w1
      in (case redis (caches w2 this) of
            None \<Rightarrow> w2
          | Some r \<Rightarrow> resolve (promise (clients w h)) (setupListeners r w2)))"

definition on_error :: "nat \<Rightarrow> error \<Rightarrow> world \<Rightarrow> world" where
  "on_error h err w =
     (let this = owner (clients w h);
          w1 = clearTimeout h w;
          w2 = upd this (\<lambda>c. c\<lparr>isReady := False\<rparr>) w1
      in reject (promise (clients w h)) err w2)"

definition on_close :: "nat \<Rightarrow> world \<Rightarrow> world" where
  "on_close h w =
     (if 0 < steady (clients w h)
      then upd (owner (clients w h)) (\<lambda>c. c\<lparr>isReady := False\<rparr>) w
      else w)"

text \<open>The establishment timer of client \<open>h\<close> fires, if it is still pending.\<close>

definition on_timeout :: "nat \<Rightarrow> world \<Rightarrow> world" where
  "on_timeout h w =
     (case timer (clients w h) of
        None \<Rightarrow> w
      | Some ms \<Rightarrow>
          let this = owner (clients w h);
              w1 = clearTimeout h w;
              w2 = reject (promise (clients w h)) ConnectionTimeout w1
          in (case redis (caches w2 this) of
                None \<Rightarrow> w2
              | Some r \<Rightarrow> disconnect r w2))"


subsection \<open>Data operations\<close>

definition getConnection :: "cache \<Rightarrow> error + nat" where
  "getConnection c =
     (if isReady c
      then (case redis c of Some h \<Rightarrow> Inr h | None \<Rightarrow> Inl NotConnected)
      else Inl NotConnected)"

text \<open>
  A round trip through client \<open>h\<close> fails outright when the client has been disconnected
  (offline queueing is off) or the link is down.
\<close>

definition unavailable :: "world \<Rightarrow> nat \<Rightarrow> string option" where
  "unavailable w h =
     (if disconnected (clients w h) then Some ''Connection is closed.''
      else outage (server w))"

text \<open>A single write command sent through client \<open>h\<close>: rejects when the server refuses it.\<close>

definition send :: "nat \<Rightarrow> command \<Rightarrow> world \<Rightarrow> (error + reply option) \<times> world" where
  "send h cmd w =
     (case unavailable w h of
        Some cause \<Rightarrow> (Inl (Upstream cause), w)
      | None \<Rightarrow>
          (case submit cmd (server w) of
             ((Some err, r), sv) \<Rightarrow> (Inl err, w\<lparr>server := sv\<rparr>)
           | ((None, r), sv) \<Rightarrow> (Inr r, w\<lparr>server := sv\<rparr>)))"

definition redis_get :: "nat \<Rightarrow> string \<Rightarrow> world \<Rightarrow> error + string option" where
  "redis_get h key w =
     (case unavailable w h of
        Some cause \<Rightarrow> Inl (Upstream cause)
      | None \<Rightarrow> Inr (map_option fst (map_of (store (server w)) key)))"

definition redis_keys :: "nat \<Rightarrow> string \<Rightarrow> world \<Rightarrow> error + string list" where
  "redis_keys h pattern w =
     (case unavailable w h of
        Some cause \<Rightarrow> Inl (Upstream cause)
      | None \<Rightarrow> Inr (filter (matches (server w) pattern) (map fst (store (server w)))))"

definition set_op :: "env \<Rightarrow> nat \<Rightarrow> string \<Rightarrow> jsvalue \<Rightarrow> number option \<Rightarrow> world
    \<Rightarrow> (error + unit) \<times> world" where
  "set_op e this rawKey v ttl w =
     (if isNil v then (Inl InvalidValue, w)
      else
        (case getConnection (caches w this) of
           Inl err \<Rightarrow> (Inl err, w)
         | Inr h \<Rightarrow>
             let txt = stringify e v;
                 key = getKey e rawKey
             in (case send h (case ttl of
                                None \<Rightarrow> SET key txt
                              | Some t \<Rightarrow> if truthy t then SETEX key t txt else SET key txt) w of
                   (Inl err, w') \<Rightarrow> (Inl err, w')
                 | (Inr r, w') \<Rightarrow> (Inr (), w'))))"

definition get :: "env \<Rightarrow> nat \<Rightarrow> string \<Rightarrow> world \<Rightarrow> error + jsvalue" where
  "get e this rawKey w =
     (case getConnection (caches w this) of
        Inl err \<Rightarrow> Inl err
      | Inr h \<Rightarrow>
          (case redis_get h (getKey e rawKey) w of
             Inl err \<Rightarrow> Inl err
           | Inr None \<Rightarrow> Inr JUndefined
           | Inr (Some txt) \<Rightarrow>
               (case parse e txt of
                  Some v \<Rightarrow> Inr v
                | None \<Rightarrow> Inr (JStr txt))))"

definition keys :: "env \<Rightarrow> nat \<Rightarrow> string option \<Rightarrow> world \<Rightarrow> error + string list" where
  "keys e this pattern w =
     (case getConnection (caches w this) of
        Inl err \<Rightarrow> Inl err
      | Inr h \<Rightarrow> redis_keys h (getKey e (case pattern of None \<Rightarrow> ''*'' | Some p \<Rightarrow> p)) w)"

definition del :: "env \<Rightarrow> nat \<Rightarrow> string \<Rightarrow> world \<Rightarrow> (error + unit) \<times> world" where
  "del e this key w =
     (case getConnection (caches w this) of
        Inl err \<Rightarrow> (Inl err, w)
      | Inr h \<Rightarrow>
          (case send h (DEL (getKey e key)) w of
             (Inl err, w') \<Rightarrow> (Inl err, w')
           | (Inr r, w') \<Rightarrow> (Inr (), w')))"

text \<open>
  \<^verbatim>\<open>executePipeline\<close>: the builder \<open>operations\<close> receives the empty batch and returns it
  with its commands queued.
\<close>

definition executePipeline :: "nat \<Rightarrow> (command list \<Rightarrow> command list) \<Rightarrow> world
    \<Rightarrow> (error + (error option \<times> reply option) list) \<times> world" where
  "executePipeline this operations w =
     (case getConnection (caches w this) of
        Inl err \<Rightarrow> (Inl err, w)
      | Inr h \<Rightarrow>
          let pipeline = operations []
          in (case unavailable w h of
                Some cause \<Rightarrow> (Inl (Upstream cause), w)
              | None \<Rightarrow>
                  (case exec pipeline (server w) of
                     (results, sv) \<Rightarrow> (Inr results, w\<lparr>server := sv\<rparr>))))"

record item =
  item_key :: string
  item_value :: jsvalue
  item_ttl :: "number option"

text \<open>The builder that \<^verbatim>\<open>setBulk\<close> passes to \<^verbatim>\<open>executePipeline\<close>: one command per item, in order.\<close>

fun setBulk_operations :: "env \<Rightarrow> item list \<Rightarrow> command list \<Rightarrow> command list" where
  "setBulk_operations e [] pipeline = pipeline"
| "setBulk_operations e (it # items) pipeline =
     (let serializedValue = stringify e (item_value it);
          formattedKey = getKey e (item_key it)
      in setBulk_operations e items
           (pipeline @
              [case item_ttl it of
                 None \<Rightarrow> SET formattedKey serializedValue
               | Some t \<Rightarrow>
                   if truthy t then SETEX formattedKey t serializedValue
                   else SET formattedKey serializedValue]))"

definition setBulk :: "env \<Rightarrow> nat \<Rightarrow> item list \<Rightarrow> world \<Rightarrow> (error + unit) \<times> world" where
  "setBulk e this items w =
     (case executePipeline this (setBulk_operations e items) w of
        (Inl err, w') \<Rightarrow> (Inl err, w')
      | (Inr results, w') \<Rightarrow>
          let errors = filter (\<lambda>r. fst r \<noteq> None) results
          in if 0 < length errors
             then (Inl (PartialBulkFailure (length errors) (length items)), w')
             else (Inr (), w'))"

section \<open>The namespaced store\<close>

record cacheStoreOptions =
  namespace :: string
  defaultTTL :: "number option"

definition isNewItem :: "env \<Rightarrow> cacheStoreOptions \<Rightarrow> string \<Rightarrow> world \<Rightarrow> (error + bool) \<times> world" where
  "isNewItem e opts key w =
     (let fullKey = namespace opts @ '':'' @ key
      in (case cacheInstance None w of
            (Inl err, w') \<Rightarrow> (Inr True, w')
          | (Inr this, w') \<Rightarrow>
              (case get e this fullKey w' of
                 Inl err \<Rightarrow> (Inr True, w')
               | Inr existingItem \<Rightarrow> (Inr (existingItem = JUndefined), w'))))"

definition saveItem :: "env \<Rightarrow> cacheStoreOptions \<Rightarrow> string \<Rightarrow> string \<Rightarrow> number option \<Rightarrow> world
    \<Rightarrow> (error + unit) \<times> world" where
  "saveItem e opts key val ttl w =
     (let ttl' = (case ttl of
                    Some t \<Rightarrow> t
                  | None \<Rightarrow> (case defaultTTL opts of Some d \<Rightarrow> d | None \<Rightarrow> Num (60 * 60 * 24)));
          fullKey = namespace opts @ '':'' @ key
      in (case cacheInstance None w of
            (Inl err, w') \<Rightarrow> (Inl (SaveFailed (message err)), w')
          | (Inr this, w') \<Rightarrow>
              (case set_op e this fullKey (JStr val) (Some ttl') w' of
                 (Inl err, w'') \<Rightarrow> (Inl (SaveFailed (message err)), w'')
               | (Inr u, w'') \<Rightarrow> (Inr (), w''))))"

section \<open>Sample inputs\<close>

text \<open>
  A fragment of the JSON built-ins (strings without escapes, booleans, \<^verbatim>\<open>null\<close>), a
  server that refuses a set-with-expiry whose expiry is not a positive number, and the
  worlds reached by initialising the singleton, starting a connection attempt and seeing it
  succeed, fail with an error event, or time out.
\<close>

fun sample_stringify :: "jsvalue \<Rightarrow> string" where
  "sample_stringify (JStr s) = CHR 0x22 # s @ [CHR 0x22]"
| "sample_stringify (JBool b) = (if b then ''true'' else ''false'')"
| "sample_stringify v = ''null''"

definition sample_parse :: "string \<Rightarrow> jsvalue option" where
  "sample_parse s =
     (if s = ''null'' then Some JNull
      else if s = ''true'' then Some (JBool True)
      else if s = ''false'' then Some (JBool False)
      else if 2 \<le> length s \<and> hd s = CHR 0x22 \<and> last s = CHR 0x22
      then Some (JStr (butlast (tl s)))
      else None)"

definition test_env :: env where
  "test_env = \<lparr> NODE_ENV = Some ''test'', stringify = sample_stringify, parse = sample_parse \<rparr>"

definition production_env :: env where
  "production_env =
     \<lparr> NODE_ENV = Some ''production'', stringify = sample_stringify, parse = sample_parse \<rparr>"

definition sample_config :: cacheConfig where
  "sample_config =
     \<lparr> host = ''cache.internal'', port = None, username = None, password = None,
       tlsEnabled = None, connectTimeout = None \<rparr>"

definition other_config :: cacheConfig where
  "other_config =
     \<lparr> host = ''elsewhere.internal'', port = Some 6380, username = None, password = None,
       tlsEnabled = Some True, connectTimeout = None \<rparr>"

definition sample_server :: server where
  "sample_server =
     \<lparr> store = [],
       refuses = (\<lambda>cmd. case cmd of
                    SETEX k t v \<Rightarrow>
                      (case t of
                         Num q \<Rightarrow>
                           if 0 < q then None else Some ''ERR invalid expire time in setex''
                       | _ \<Rightarrow> Some ''ERR value is not an integer or out of range'')
                  | _ \<Rightarrow> None),
       matches = (\<lambda>p k. p = k \<or>
                    (p \<noteq> [] \<and> last p = CHR ''*'' \<and> take (length p - 1) k = butlast p)),
       outage = None \<rparr>"

definition fresh_world :: world where
  "fresh_world =
     \<lparr> Cache_instance = None,
       caches = (\<lambda>i. new_Cache sample_config), ncaches = 0,
       clients = (\<lambda>h. new_Redis (getRedisConfig test_env sample_config) 0 0), nclients = 0,
       promises = (\<lambda>p. Pending), npromises = 0,
       server = sample_server \<rparr>"

definition initialized_world :: world where
  "initialized_world = snd (getInstance (Some sample_config) fresh_world)"

definition connecting_world :: world where
  "connecting_world = snd (connect test_env None 0 initialized_world)"

definition connected_world :: world where
  "connected_world = connect_finally 0 (on_ready 0 connecting_world)"

definition refused_world :: world where
  "refused_world = connect_finally 0 (on_error 0 (Upstream ''ECONNREFUSED'') connecting_world)"

definition timed_out_world :: world where
  "timed_out_world = connect_finally 0 (on_timeout 0 connecting_world)"

definition sample_items :: "item list" where
  "sample_items =
     [ \<lparr> item_key = ''a'', item_value = JStr ''1'', item_ttl = None \<rparr>,
       \<lparr> item_key = ''b'', item_value = JStr ''2'', item_ttl = Some (Num (- 5)) \<rparr>,
       \<lparr> item_key = ''c'', item_value = JStr ''3'', item_ttl = Some (Num 0) \<rparr> ]"

definition stocked_world :: world where
  "stocked_world =
     connected_world\<lparr> server := sample_server\<lparr> store :=
       [ (''test:json'', sample_stringify (JStr ''bar''), None),
         (''test:plain'', ''not-json'', None),
         (''test:feeds:seen'', ''true'', Some (Num 86400)) ] \<rparr> \<rparr>"

definition feeds :: cacheStoreOptions where
  "feeds = \<lparr> namespace = ''feeds'', defaultTTL = None \<rparr>"

section \<open>Properties\<close>

subsection \<open>Heap bookkeeping\<close>

lemma caches_upd [simp]: "caches (upd this f w) = (caches w)(this := f (caches w this))"
  and clients_upd [simp]: "clients (upd this f w) = clients w"
  and promises_upd [simp]: "promises (upd this f w) = promises w"
  and nclients_upd [simp]: "nclients (upd this f w) = nclients w"
  and npromises_upd [simp]: "npromises (upd this f w) = npromises w"
  and server_upd [simp]: "server (upd this f w) = server w"
  by (simp_all add: upd_def)

lemma Cache_instance_upd [simp]: "Cache_instance (upd this f w) = Cache_instance w"
  and ncaches_upd [simp]: "ncaches (upd this f w) = ncaches w"
  by (simp_all add: upd_def)

lemma gate_closed:
  "\<not> isReady c \<or> redis c = None \<Longrightarrow> getConnection c = Inl NotConnected"
  by (auto simp: getConnection_def)

lemma gate_open:
  "isReady c \<Longrightarrow> redis c = Some h \<Longrightarrow> getConnection c = Inr h"
  by (simp add: getConnection_def)

subsection \<open>The sample worlds\<close>

lemma initialized_world_eq:
  "initialized_world =
     fresh_world\<lparr> caches := (caches fresh_world)(0 := new_Cache sample_config),
                   ncaches := Suc 0, Cache_instance := Some 0 \<rparr>"
  by (simp add: initialized_world_def getInstance_def fresh_world_def Let_def)

lemma initialized_cache:
  "caches initialized_world 0 = new_Cache sample_config"
  by (simp add: initialized_world_eq)

lemma connecting_world_eq:
  "connecting_world =
     initialized_world
       \<lparr> caches := (caches initialized_world)
            (0 := \<lparr> config = sample_config, redis = Some 0, isReady = False,
                    connectPromise = Some 0 \<rparr>),
         clients := (clients initialized_world)
            (0 := new_Redis (getRedisConfig test_env sample_config) 0 0),
         nclients := Suc 0,
         promises := (promises initialized_world)(0 := Pending),
         npromises := Suc 0 \<rparr>"
  by (simp add: connecting_world_def connect_def initialized_cache new_Cache_def upd_def Let_def
      initialized_world_eq fresh_world_def)

lemma connecting_world_fields:
  "caches connecting_world 0 =
     \<lparr> config = sample_config, redis = Some 0, isReady = False, connectPromise = Some 0 \<rparr>"
  "clients connecting_world 0 = new_Redis (getRedisConfig test_env sample_config) 0 0"
  "promises connecting_world 0 = Pending"
  "nclients connecting_world = 1"
  "npromises connecting_world = 1"
  "server connecting_world = sample_server"
  "Cache_instance connecting_world = Some 0"
  by (simp_all add: connecting_world_eq initialized_world_eq fresh_world_def)

lemma connected_world_fields:
  "caches connected_world 0 =
     \<lparr> config = sample_config, redis = Some 0, isReady = True, connectPromise = None \<rparr>"
  "clients connected_world 0 =
     \<lparr> options = getRedisConfig test_env sample_config, owner = 0, promise = 0, timer = None,
       steady = 1, disconnected = False \<rparr>"
  "promises connected_world 0 = Resolved"
  "server connected_world = sample_server"
  "Cache_instance connected_world = Some 0"
  by (simp_all add: connected_world_def connecting_world_fields connect_finally_def on_ready_def
      clearTimeout_def setupListeners_def resolve_def new_Redis_def Let_def)

lemma connected_world_ready:
  "isReady (caches connected_world 0)"
  "redis (caches connected_world 0) = Some 0"
  "unavailable connected_world 0 = None"
  by (simp_all add: connected_world_fields unavailable_def sample_server_def)

lemma stocked_world_ready:
  "isReady (caches stocked_world 0)"
  "redis (caches stocked_world 0) = Some 0"
  "unavailable stocked_world 0 = None"
  "Cache_instance stocked_world = Some 0"
  by (simp_all add: stocked_world_def connected_world_fields unavailable_def sample_server_def)

lemma stocked_world_store:
  "store (server stocked_world) =
     [ (''test:json'', sample_stringify (JStr ''bar''), None),
       (''test:plain'', ''not-json'', None),
       (''test:feeds:seen'', ''true'', Some (Num 86400)) ]"
  by (simp add: stocked_world_def)

lemma refused_world_fields:
  "caches refused_world 0 =
     \<lparr> config = sample_config, redis = Some 0, isReady = False, connectPromise = None \<rparr>"
  "clients refused_world 0 =
     \<lparr> options = getRedisConfig test_env sample_config, owner = 0, promise = 0, timer = None,
       steady = 0, disconnected = False \<rparr>"
  "promises refused_world 0 = Rejected (Upstream ''ECONNREFUSED'')"
  "nclients refused_world = 1"
  "npromises refused_world = 1"
  by (simp_all add: refused_world_def connecting_world_fields connect_finally_def on_error_def
      clearTimeout_def reject_def new_Redis_def Let_def)

lemma timed_out_world_fields:
  "caches timed_out_world 0 =
     \<lparr> config = sample_config, redis = Some 0, isReady = False, connectPromise = None \<rparr>"
  "clients timed_out_world 0 =
     \<lparr> options = getRedisConfig test_env sample_config, owner = 0, promise = 0, timer = None,
       steady = 0, disconnected = True \<rparr>"
  "promises timed_out_world 0 = Rejected ConnectionTimeout"
  by (simp_all add: timed_out_world_def connecting_world_fields connect_finally_def
      on_timeout_def clearTimeout_def disconnect_def reject_def new_Redis_def Let_def)

lemma sample_batch:
  "setBulk_operations test_env sample_items [] =
     [ SET ''test:a'' (sample_stringify (JStr ''1'')),
       SETEX ''test:b'' (Num (- 5)) (sample_stringify (JStr ''2'')),
       SET ''test:c'' (sample_stringify (JStr ''3'')) ]"
  by (simp add: sample_items_def test_env_def getKey_def Let_def)

lemma sample_batch_results:
  "fst (exec (setBulk_operations test_env sample_items []) sample_server) =
     [ (None, Some OK), (Some (Upstream ''ERR invalid expire time in setex''), None),
       (None, Some OK) ]"
  by (simp add: sample_batch submit_def sample_server_def)

lemma sample_gets:
  "get test_env 0 ''feeds:seen'' initialized_world = Inl NotConnected"
  "get test_env 0 ''feeds:seen'' connected_world = Inr JUndefined"
  "get test_env 0 ''feeds:seen'' stocked_world = Inr (JBool True)"
  by (simp_all add: get_def getConnection_def redis_get_def getKey_def test_env_def
      initialized_cache new_Cache_def connected_world_fields connected_world_ready
      stocked_world_ready stocked_world_store sample_server_def sample_parse_def)

subsection \<open>Single-flight connect\<close>




lemma connect_attempt:
  assumes "\<not> isReady (caches w this)" and "connectPromise (caches w this) = None"
  shows "promises (snd (connect e None this w)) (npromises w) = Pending"
    and "clients (snd (connect e None this w)) (nclients w) =
           new_Redis (getRedisConfig e (config (caches w this))) this (npromises w)"
    and "redis (caches (snd (connect e None this w)) this) = Some (nclients w)"
  using assms
  by (simp_all add: connect_def Let_def)







subsection \<open>Failed attempts\<close>

lemma on_error_keeps_handles_open:
  "disconnected (clients (on_error h err w) h') = disconnected (clients w h')"
  by (simp add: on_error_def clearTimeout_def reject_def Let_def)

lemma on_error_keeps_handle:
  "redis (caches (on_error h err w) this) = redis (caches w this)"
  by (simp add: on_error_def clearTimeout_def reject_def Let_def)

lemma on_timeout_disconnects:
  assumes "timer (clients w h) = Some ms"
    and "redis (caches w (owner (clients w h))) = Some r"
  shows "disconnected (clients (on_timeout h w) r)"
  using assms
  by (simp add: on_timeout_def clearTimeout_def reject_def disconnect_def Let_def)

lemma connect_finally_clears:
  "connectPromise (caches (connect_finally this w) this) = None"
  by (simp add: connect_finally_def)

text \<open>
  C3. A failed attempt clears the in-flight marker on both paths, but only the timeout
  path tears the handle down. After an \<^verbatim>\<open>error\<close> event on the first attempt the promise is
  rejected and the marker is cleared, yet the client is still the handle and
  \<^verbatim>\<open>disconnect()\<close> was never called on it; the next \<^verbatim>\<open>connect\<close> creates a second
  client beside it, and a late \<^verbatim>\<open>ready\<close> event of the first client then raises the
  readiness flag while the second attempt is still pending. After a timeout the client is
  disconnected.
\<close>

theorem error_event_leaves_handle_open:
  "promises refused_world 0 = Rejected (Upstream ''ECONNREFUSED'')
   \<and> connectPromise (caches refused_world 0) = None
   \<and> redis (caches refused_world 0) = Some 0
   \<and> \<not> disconnected (clients refused_world 0)
   \<and> fst (connect test_env None 0 refused_world) = Awaits 1
   \<and> redis (caches (snd (connect test_env None 0 refused_world)) 0) = Some 1
   \<and> nclients (snd (connect test_env None 0 refused_world)) = 2
   \<and> \<not> disconnected (clients (snd (connect test_env None 0 refused_world)) 0)
   \<and> isReady (caches (on_ready 0 (snd (connect test_env None 0 refused_world))) 0)
   \<and> promises (on_ready 0 (snd (connect test_env None 0 refused_world))) 1 = Pending
   \<and> promises timed_out_world 0 = Rejected ConnectionTimeout
   \<and> connectPromise (caches timed_out_world 0) = None
   \<and> disconnected (clients timed_out_world 0)"
  by (simp add: refused_world_fields timed_out_world_fields connect_def on_ready_def
      clearTimeout_def setupListeners_def resolve_def new_Redis_def Let_def)

subsection \<open>The connection gate\<close>

text \<open>
  The null guard of \<^verbatim>\<open>set\<close> runs before the gate: on an instance that is not connected,
  \<^verbatim>\<open>set\<close> with a null value fails with \<open>InvalidValue\<close>, not with \<open>NotConnected\<close>.
\<close>

theorem set_guard_precedes_gate:
  "\<not> isReady (caches initialized_world 0)
   \<and> redis (caches initialized_world 0) = None
   \<and> fst (set_op test_env 0 ''k'' JNull None initialized_world) = Inl InvalidValue
   \<and> fst (set_op test_env 0 ''k'' JNull None initialized_world) \<noteq> Inl NotConnected"
  by (simp add: initialized_cache new_Cache_def set_op_def)

text \<open>
  C2, as amended. When the readiness flag is false or the handle is null, \<^verbatim>\<open>get\<close>,
  \<^verbatim>\<open>keys\<close>, \<^verbatim>\<open>del\<close>, \<^verbatim>\<open>executePipeline\<close> and \<^verbatim>\<open>setBulk\<close> fail with
  \<open>NotConnected\<close> and leave the world as it was; \<^verbatim>\<open>set\<close> does the same for a value that
  is neither null nor undefined, and fails with \<open>InvalidValue\<close> for one that is.
\<close>

theorem gate_first:
  assumes "\<not> isReady (caches w this) \<or> redis (caches w this) = None"
  shows "get e this k w = Inl NotConnected
       \<and> keys e this pattern w = Inl NotConnected
       \<and> del e this k w = (Inl NotConnected, w)
       \<and> executePipeline this operations w = (Inl NotConnected, w)
       \<and> setBulk e this items w = (Inl NotConnected, w)
       \<and> (\<not> isNil v \<longrightarrow> set_op e this k v ttl w = (Inl NotConnected, w))
       \<and> (isNil v \<longrightarrow> set_op e this k v ttl w = (Inl InvalidValue, w))"
  using gate_closed [OF assms]
  by (simp add: get_def keys_def del_def executePipeline_def setBulk_def set_op_def)

theorem gate_first_witness:
  "\<not> isReady (caches initialized_world 0)
   \<and> get test_env 0 ''k'' initialized_world = Inl NotConnected
   \<and> keys test_env 0 None initialized_world = Inl NotConnected
   \<and> del test_env 0 ''k'' initialized_world = (Inl NotConnected, initialized_world)
   \<and> executePipeline 0 (\<lambda>p. p @ [DEL ''k'']) initialized_world
       = (Inl NotConnected, initialized_world)
   \<and> setBulk test_env 0 sample_items initialized_world = (Inl NotConnected, initialized_world)
   \<and> set_op test_env 0 ''k'' (JStr ''v'') None initialized_world
       = (Inl NotConnected, initialized_world)
   \<and> set_op test_env 0 ''k'' JNull None initialized_world
       = (Inl InvalidValue, initialized_world)"
proof -
  have r: "\<not> isReady (caches initialized_world 0)"
    by (simp add: initialized_cache new_Cache_def)
  then have a: "\<not> isReady (caches initialized_world 0) \<or> redis (caches initialized_world 0) = None"
    by simp
  have v: "\<not> isNil (JStr ''v'')" and n: "isNil JNull" by simp_all
  show ?thesis
    using r v n
      gate_first [OF a, of test_env "''k''" None "\<lambda>p. p @ [DEL ''k'']" sample_items
        "JStr ''v''" None]
      gate_first [OF a, of test_env "''k''" None "\<lambda>p. p @ [DEL ''k'']" sample_items JNull None]
    by blast
qed

subsection \<open>The null guard of set\<close>

text \<open>
  C4. \<^verbatim>\<open>set\<close> fails with \<open>InvalidValue\<close> ("Value is null or undefined") for a null or
  undefined value, whatever the state of the connection, and never fails with that error
  for any other value.
\<close>

theorem set_null_guard:
  "(v = JNull \<or> v = JUndefined \<longrightarrow> set_op e this k v ttl w = (Inl InvalidValue, w))
   \<and> (v \<noteq> JNull \<and> v \<noteq> JUndefined \<longrightarrow> fst (set_op e this k v ttl w) \<noteq> Inl InvalidValue)
   \<and> message InvalidValue = ''Value is null or undefined''"
  by (cases v)
     (auto simp: set_op_def getConnection_def send_def submit_def Let_def
           split: option.splits sum.splits prod.splits if_splits)

theorem set_null_guard_witness:
  "set_op test_env 0 ''nullKey'' JNull None connected_world
     = (Inl InvalidValue, connected_world)
   \<and> set_op test_env 0 ''undefinedKey'' JUndefined None connected_world
     = (Inl InvalidValue, connected_world)
   \<and> fst (set_op test_env 0 ''k'' (JStr ''v'') (Some (Num 1)) connected_world) \<noteq> Inl InvalidValue
   \<and> fst (set_op test_env 0 ''k'' (JStr ''v'') (Some (Num 1)) initialized_world) \<noteq> Inl InvalidValue"
  using set_null_guard [of JNull test_env 0 "''nullKey''" None connected_world]
    set_null_guard [of JUndefined test_env 0 "''undefinedKey''" None connected_world]
    set_null_guard [of "JStr ''v''" test_env 0 "''k''" "Some (Num 1)" connected_world]
    set_null_guard [of "JStr ''v''" test_env 0 "''k''" "Some (Num 1)" initialized_world]
  by (intro conjI) simp_all

subsection \<open>Reading\<close>

text \<open>
  C5. On a connected manager whose read completes, \<^verbatim>\<open>get\<close> returns the miss sentinel
  when the store holds nothing at the physical key, the decoded value when the stored text
  parses as JSON, and the stored text itself when it does not; it raises in none of the
  three cases.
\<close>

theorem get_miss_and_fallback:
  assumes "isReady (caches w this)" and "redis (caches w this) = Some h"
    and "unavailable w h = None"
  shows "(map_of (store (server w)) (getKey e k) = None \<longrightarrow> get e this k w = Inr JUndefined)
       \<and> (\<forall>txt x v. map_of (store (server w)) (getKey e k) = Some (txt, x) \<and> parse e txt = Some v
             \<longrightarrow> get e this k w = Inr v)
       \<and> (\<forall>txt x. map_of (store (server w)) (getKey e k) = Some (txt, x) \<and> parse e txt = None
             \<longrightarrow> get e this k w = Inr (JStr txt))
       \<and> (\<exists>v. get e this k w = Inr v)"
  using assms
  by (auto simp: get_def getConnection_def redis_get_def split: option.splits)

theorem get_miss_and_fallback_witness:
  "isReady (caches stocked_world 0)
   \<and> redis (caches stocked_world 0) = Some 0
   \<and> unavailable stocked_world 0 = None
   \<and> get test_env 0 ''missing'' stocked_world = Inr JUndefined
   \<and> get test_env 0 ''json'' stocked_world = Inr (JStr ''bar'')
   \<and> get test_env 0 ''plain'' stocked_world = Inr (JStr ''not-json'')"
proof -
  note ready = stocked_world_ready(1-3)
  note t = get_miss_and_fallback [OF ready, of test_env]
  have k: "getKey test_env ''missing'' = ''test:missing''" "getKey test_env ''json'' = ''test:json''"
    "getKey test_env ''plain'' = ''test:plain''"
    by (simp_all add: getKey_def test_env_def)
  have p: "parse test_env (sample_stringify (JStr ''bar'')) = Some (JStr ''bar'')"
    "parse test_env ''not-json'' = None"
    by (simp_all add: test_env_def sample_parse_def)
  have "get test_env 0 ''missing'' stocked_world = Inr JUndefined"
    using t [of "''missing''"] by (simp add: k stocked_world_store)
  moreover have "get test_env 0 ''json'' stocked_world = Inr (JStr ''bar'')"
    using t [of "''json''"] p(1) by (simp add: k stocked_world_store)
  moreover have "get test_env 0 ''plain'' stocked_world = Inr (JStr ''not-json'')"
    using t [of "''plain''"] p(2) by (simp add: k stocked_world_store)
  ultimately show ?thesis using ready by simp
qed

subsection \<open>Pipelines\<close>

lemma submit_server:
  "refuses (snd (submit c sv)) = refuses sv"
  "outage (snd (submit c sv)) = outage sv"
  "fst (fst (submit c sv)) = map_option Upstream (refuses sv c)"
  "store (snd (submit c sv)) =
     (if refuses sv c = None then snd (apply_command c (store sv)) else store sv)"
  by (auto simp: submit_def split: option.splits prod.splits)

lemma exec_errors:
  "map fst (fst (exec cmds sv)) = map (\<lambda>c. map_option Upstream (refuses sv c)) cmds"
proof (induction cmds arbitrary: sv)
  case Nil
  show ?case by simp
next
  case (Cons c cmds)
  obtain r sv' where s: "submit c sv = (r, sv')" by (cases "submit c sv")
  obtain rs sv'' where x: "exec cmds sv' = (rs, sv'')" by (cases "exec cmds sv'")
  from Cons [of sv'] submit_server(1,3) [of c sv] show ?case by (simp add: s x)
qed

lemma exec_store:
  "store (snd (exec cmds sv)) =
     foldl (\<lambda>st c. snd (apply_command c st)) (store sv)
       (filter (\<lambda>c. refuses sv c = None) cmds)"
proof (induction cmds arbitrary: sv)
  case Nil
  show ?case by simp
next
  case (Cons c cmds)
  obtain r sv' where s: "submit c sv = (r, sv')" by (cases "submit c sv")
  obtain rs sv'' where x: "exec cmds sv' = (rs, sv'')" by (cases "exec cmds sv'")
  from Cons [of sv'] submit_server(1,4) [of c sv] show ?case by (simp add: s x)
qed

lemma failed_count:
  "length (filter (\<lambda>r. fst r \<noteq> None) (fst (exec cmds sv)))
     = length (filter (\<lambda>c. refuses sv c \<noteq> None) cmds)"
proof -
  have "length (filter (\<lambda>r. fst r \<noteq> None) (fst (exec cmds sv)))
      = length (filter (\<lambda>x. x \<noteq> None) (map fst (fst (exec cmds sv))))"
    by (simp add: filter_map comp_def)
  also have "\<dots> = length (filter (\<lambda>c. refuses sv c \<noteq> None) cmds)"
    by (simp add: exec_errors filter_map comp_def)
  finally show ?thesis .
qed

lemma setBulk_operations_length:
  "length (setBulk_operations e items p) = length p + length items"
  by (induction items arbitrary: p) (simp_all add: Let_def)

lemma setBulk_run:
  assumes "isReady (caches w this)" and "redis (caches w this) = Some h"
    and "unavailable w h = None"
  shows "setBulk e this items w =
     (if filter (\<lambda>r. fst r \<noteq> None) (fst (exec (setBulk_operations e items []) (server w))) \<noteq> []
      then Inl (PartialBulkFailure
             (length (filter (\<lambda>r. fst r \<noteq> None)
                (fst (exec (setBulk_operations e items []) (server w)))))
             (length items))
      else Inr (),
      w\<lparr>server := snd (exec (setBulk_operations e items []) (server w))\<rparr>)"
  using assms gate_open [OF assms(1,2)]
  by (simp add: setBulk_def executePipeline_def Let_def split: prod.splits)

text \<open>
  C6. On a connected manager whose round trip succeeds, \<^verbatim>\<open>setBulk\<close> fails with the
  aggregate error, naming the number of error pairs over the number of items, exactly when
  some result pair carries an error, and returns normally otherwise. In both cases the store
  is the one in which every command the server accepted has been applied, in order; the
  empty batch returns normally and changes nothing.
\<close>

theorem setBulk_partial_failure:
  assumes "isReady (caches w this)" and "redis (caches w this) = Some h"
    and "unavailable w h = None"
  shows "((\<exists>r \<in> set (fst (exec (setBulk_operations e items []) (server w))). fst r \<noteq> None) \<longrightarrow>
            fst (setBulk e this items w)
              = Inl (PartialBulkFailure
                  (length (filter (\<lambda>r. fst r \<noteq> None)
                     (fst (exec (setBulk_operations e items []) (server w)))))
                  (length items)))
       \<and> ((\<forall>r \<in> set (fst (exec (setBulk_operations e items []) (server w))). fst r = None) \<longrightarrow>
            fst (setBulk e this items w) = Inr ())
       \<and> length (fst (exec (setBulk_operations e items []) (server w))) = length items
       \<and> store (server (snd (setBulk e this items w)))
           = foldl (\<lambda>st c. snd (apply_command c st)) (store (server w))
               (filter (\<lambda>c. refuses (server w) c = None) (setBulk_operations e items []))
       \<and> length (filter (\<lambda>r. fst r \<noteq> None)
            (fst (exec (setBulk_operations e items []) (server w))))
           = length (filter (\<lambda>c. refuses (server w) c \<noteq> None) (setBulk_operations e items []))
       \<and> setBulk e this [] w = (Inr (), w)"
proof -
  let ?cmds = "setBulk_operations e items []"
  let ?results = "fst (exec ?cmds (server w))"
  note run = setBulk_run [OF assms(1-3)]
  have len: "length ?results = length items"
    using arg_cong [OF exec_errors [of ?cmds "server w"], of length]
    by (simp add: setBulk_operations_length)
  have fail: "(\<exists>r \<in> set ?results. fst r \<noteq> None) \<longrightarrow>
      fst (setBulk e this items w)
        = Inl (PartialBulkFailure (length (filter (\<lambda>r. fst r \<noteq> None) ?results)) (length items))"
    by (auto simp: run [of e items] filter_empty_conv)
  have ok: "(\<forall>r \<in> set ?results. fst r = None) \<longrightarrow> fst (setBulk e this items w) = Inr ()"
    by (auto simp: run [of e items] filter_empty_conv)
  have st: "store (server (snd (setBulk e this items w)))
           = foldl (\<lambda>st c. snd (apply_command c st)) (store (server w))
               (filter (\<lambda>c. refuses (server w) c = None) ?cmds)"
    by (simp add: run [of e items] exec_store)
  have cnt: "length (filter (\<lambda>r. fst r \<noteq> None) ?results)
           = length (filter (\<lambda>c. refuses (server w) c \<noteq> None) ?cmds)"
    by (rule failed_count)
  have emp: "setBulk e this [] w = (Inr (), w)"
    by (simp add: run [of e "[]"])
  from fail ok len st cnt emp show ?thesis by (intro conjI)
qed

theorem setBulk_partial_failure_witness:
  "isReady (caches connected_world 0)
   \<and> redis (caches connected_world 0) = Some 0
   \<and> unavailable connected_world 0 = None
   \<and> fst (setBulk test_env 0 sample_items connected_world) = Inl (PartialBulkFailure 1 3)
   \<and> store (server (snd (setBulk test_env 0 sample_items connected_world)))
       = [ (''test:a'', sample_stringify (JStr ''1''), None),
           (''test:c'', sample_stringify (JStr ''3''), None) ]
   \<and> setBulk test_env 0 [] connected_world = (Inr (), connected_world)
   \<and> message (PartialBulkFailure 1 3) = ''Failed to set 1 out of 3 items''"
proof -
  note ready = connected_world_ready
  note t = setBulk_partial_failure [OF ready, of test_env sample_items]
  have l: "length sample_items = 3" by (simp add: sample_items_def)
  have "fst (setBulk test_env 0 sample_items connected_world) = Inl (PartialBulkFailure 1 3)"
    using t by (simp add: connected_world_fields sample_batch_results l)
  moreover have "store (server (snd (setBulk test_env 0 sample_items connected_world)))
       = [ (''test:a'', sample_stringify (JStr ''1''), None),
           (''test:c'', sample_stringify (JStr ''3''), None) ]"
    using t by (simp add: connected_world_fields sample_batch sample_server_def)
  moreover have "setBulk test_env 0 [] connected_world = (Inr (), connected_world)"
    using t by simp
  moreover have "message (PartialBulkFailure 1 3) = ''Failed to set 1 out of 3 items''"
    by (simp add: show_nat.simps)
  ultimately show ?thesis using ready by simp
qed

subsection \<open>The namespaced store\<close>

lemma getInstance_None:
  "getInstance None w =
     (case Cache_instance w of None \<Rightarrow> (Inl NotInitialized, w) | Some i \<Rightarrow> (Inr i, w))"
  by (simp add: getInstance_def Let_def split: option.splits)

text \<open>
  C7. \<^verbatim>\<open>isNewItem\<close> always returns a boolean and never raises: true when \<^verbatim>\<open>get\<close> on
  \<^verbatim>\<open>namespace:key\<close> returns the miss sentinel, true when \<^verbatim>\<open>get\<close> fails or no
  singleton exists, and false only when \<^verbatim>\<open>get\<close> returns a value other than the sentinel.
\<close>

theorem isNewItem_fail_open:
  "(\<exists>b. fst (isNewItem e opts key w) = Inr b)
   \<and> (\<forall>this. Cache_instance w = Some this
          \<and> get e this (namespace opts @ '':'' @ key) w = Inr JUndefined
        \<longrightarrow> fst (isNewItem e opts key w) = Inr True)
   \<and> (\<forall>this err. Cache_instance w = Some this
          \<and> get e this (namespace opts @ '':'' @ key) w = Inl err
        \<longrightarrow> fst (isNewItem e opts key w) = Inr True)
   \<and> (Cache_instance w = None \<longrightarrow> fst (isNewItem e opts key w) = Inr True)
   \<and> (fst (isNewItem e opts key w) = Inr False \<longrightarrow>
        (\<exists>this v. Cache_instance w = Some this
           \<and> get e this (namespace opts @ '':'' @ key) w = Inr v \<and> v \<noteq> JUndefined))
   \<and> snd (isNewItem e opts key w) = w"
  by (auto simp: isNewItem_def cacheInstance_def getInstance_None Let_def
           split: option.splits sum.splits)

theorem isNewItem_fail_open_witness:
  "fst (isNewItem test_env feeds ''seen'' fresh_world) = Inr True
   \<and> fst (isNewItem test_env feeds ''seen'' initialized_world) = Inr True
   \<and> fst (isNewItem test_env feeds ''seen'' connected_world) = Inr True
   \<and> fst (isNewItem test_env feeds ''seen'' stocked_world) = Inr False
   \<and> (\<exists>this v. Cache_instance stocked_world = Some this
         \<and> get test_env this (namespace feeds @ '':'' @ ''seen'') stocked_world = Inr v
         \<and> v \<noteq> JUndefined)"
proof -
  have n: "namespace feeds @ '':'' @ ''seen'' = ''feeds:seen''" by (simp add: feeds_def)
  have i: "Cache_instance fresh_world = None" "Cache_instance initialized_world = Some 0"
    "Cache_instance connected_world = Some 0" "Cache_instance stocked_world = Some 0"
    by (simp_all add: fresh_world_def initialized_world_eq connected_world_fields
        stocked_world_ready)
  have a: "fst (isNewItem test_env feeds ''seen'' fresh_world) = Inr True"
    using isNewItem_fail_open [of test_env feeds "''seen''" fresh_world] i(1) by blast
  have b: "fst (isNewItem test_env feeds ''seen'' initialized_world) = Inr True"
    using isNewItem_fail_open [of test_env feeds "''seen''" initialized_world] i(2) sample_gets(1)
    unfolding n by blast
  have c: "fst (isNewItem test_env feeds ''seen'' connected_world) = Inr True"
    using isNewItem_fail_open [of test_env feeds "''seen''" connected_world] i(3) sample_gets(2)
    unfolding n by blast
  have d: "fst (isNewItem test_env feeds ''seen'' stocked_world) = Inr False"
    using sample_gets(3)
    by (simp add: isNewItem_def cacheInstance_def getInstance_None i(4) feeds_def)
  have e: "\<exists>this v. Cache_instance stocked_world = Some this
         \<and> get test_env this (namespace feeds @ '':'' @ ''seen'') stocked_world = Inr v
         \<and> v \<noteq> JUndefined"
    using isNewItem_fail_open [of test_env feeds "''seen''" stocked_world] d by blast
  from a b c d e show ?thesis by (intro conjI)
qed

subsection \<open>Test mode\<close>

lemma test_key: "NODE_ENV e = Some ''test'' \<Longrightarrow> getKey e k = ''test:'' @ k"
  and plain_key: "NODE_ENV e \<noteq> Some ''test'' \<Longrightarrow> getKey e k = k"
  by (simp_all add: getKey_def)

lemma test_host: "NODE_ENV e = Some ''test'' \<Longrightarrow> getHost e cfg = ''localhost''"
  and plain_host: "NODE_ENV e \<noteq> Some ''test'' \<Longrightarrow> getHost e cfg = host cfg"
  by (simp_all add: getHost_def)

lemma setBulk_operations_queue:
  "setBulk_operations e items p =
     p @ map (\<lambda>it. case item_ttl it of
                      None \<Rightarrow> SET (getKey e (item_key it)) (stringify e (item_value it))
                    | Some t \<Rightarrow>
                        if truthy t
                        then SETEX (getKey e (item_key it)) t (stringify e (item_value it))
                        else SET (getKey e (item_key it)) (stringify e (item_value it))) items"
  by (induction items arbitrary: p) (simp_all add: Let_def)

lemma set_op_sends:
  assumes "isReady (caches w this)" and "redis (caches w this) = Some h" and "\<not> isNil v"
  shows "set_op e this k v ttl w =
     (case send h (case ttl of
                     None \<Rightarrow> SET (getKey e k) (stringify e v)
                   | Some t \<Rightarrow>
                       if truthy t then SETEX (getKey e k) t (stringify e v)
                       else SET (getKey e k) (stringify e v)) w of
        (Inl err, w') \<Rightarrow> (Inl err, w')
      | (Inr r, w') \<Rightarrow> (Inr (), w'))"
  using assms(3) gate_open [OF assms(1,2)] by (simp add: set_op_def Let_def)

lemma send_accepted:
  assumes "unavailable w h = None" and "refuses (server w) cmd = None"
  shows "send h cmd w =
     (Inr (Some (fst (apply_command cmd (store (server w))))),
      w\<lparr>server := (server w)\<lparr>store := snd (apply_command cmd (store (server w)))\<rparr>\<rparr>)"
  using assms by (simp add: send_def submit_def split: prod.splits)

lemma set_op_stores:
  assumes "isReady (caches w this)" and "redis (caches w this) = Some h"
    and "unavailable w h = None" and "\<not> isNil v"
    and "refuses (server w) (SET (getKey e k) (stringify e v)) = None"
  shows "set_op e this k v None w =
     (Inr (), w\<lparr>server := (server w)\<lparr>store :=
        AList.update (getKey e k) (stringify e v, None) (store (server w))\<rparr>\<rparr>)"
  by (simp add: set_op_sends [OF assms(1,2,4)] send_accepted [OF assms(3,5)])

lemma get_reads:
  assumes "isReady (caches w this)" and "redis (caches w this) = Some h"
    and "unavailable w h = None"
  shows "get e this k w =
     Inr (case map_of (store (server w)) (getKey e k) of
            None \<Rightarrow> JUndefined
          | Some (txt, x) \<Rightarrow> (case parse e txt of Some v \<Rightarrow> v | None \<Rightarrow> JStr txt))"
  using assms(3) gate_open [OF assms(1,2)]
  by (simp add: get_def redis_get_def split: option.splits)

lemma del_deletes:
  assumes "isReady (caches w this)" and "redis (caches w this) = Some h"
    and "unavailable w h = None" and "refuses (server w) (DEL (getKey e k)) = None"
  shows "del e this k w =
     (Inr (), w\<lparr>server := (server w)\<lparr>store :=
        AList.delete (getKey e k) (store (server w))\<rparr>\<rparr>)"
  using gate_open [OF assms(1,2)]
  by (simp add: del_def send_accepted [OF assms(3,4)])

lemma keys_lists:
  assumes "isReady (caches w this)" and "redis (caches w this) = Some h"
    and "unavailable w h = None"
  shows "keys e this pattern w =
     Inr (filter (matches (server w) (getKey e (case pattern of None \<Rightarrow> ''*'' | Some p \<Rightarrow> p)))
            (map fst (store (server w))))"
  using assms(3) gate_open [OF assms(1,2)]
  by (simp add: keys_def redis_keys_def)

lemma executePipeline_runs:
  assumes "isReady (caches w this)" and "redis (caches w this) = Some h"
    and "unavailable w h = None"
  shows "executePipeline this operations w =
     (Inr (fst (exec (operations []) (server w))),
      w\<lparr>server := snd (exec (operations []) (server w))\<rparr>)"
  using assms(3) gate_open [OF assms(1,2)]
  by (simp add: executePipeline_def Let_def split: prod.splits)

text \<open>
  \<^verbatim>\<open>executePipeline\<close> never calls \<^verbatim>\<open>getKey\<close>: in test mode a builder that queues a write
  to \<^verbatim>\<open>foo\<close> stores it under \<^verbatim>\<open>foo\<close>, and nothing appears under \<^verbatim>\<open>test:foo\<close>.
\<close>

theorem executePipeline_keys_unprefixed:
  "NODE_ENV test_env = Some ''test''
   \<and> fst (executePipeline 0 (\<lambda>p. p @ [SET ''foo'' ''1'']) connected_world)
       = Inr [(None, Some OK)]
   \<and> store (server (snd (executePipeline 0 (\<lambda>p. p @ [SET ''foo'' ''1'']) connected_world)))
       = [(''foo'', ''1'', None)]
   \<and> map_of (store (server (snd (executePipeline 0 (\<lambda>p. p @ [SET ''foo'' ''1''])
         connected_world)))) ''test:foo'' = None"
  by (simp add: test_env_def executePipeline_def getConnection_def connected_world_fields
      unavailable_def submit_def sample_server_def Let_def)

text \<open>
  C8, as amended. For a connected manager whose round trips complete: when \<^verbatim>\<open>NODE_ENV\<close> is
  \<^verbatim>\<open>test\<close>, \<^verbatim>\<open>set\<close> sends its write for the key prefixed with \<^verbatim>\<open>test:\<close> (an accepted plain
  write stores the text under that key), \<^verbatim>\<open>get\<close> reads that key, \<^verbatim>\<open>del\<close> deletes that key,
  \<^verbatim>\<open>keys\<close> matches the prefixed pattern against the stored keys and returns them as stored,
  \<^verbatim>\<open>setBulk\<close> queues one write per item for the prefixed key, and the host, also of the
  client that \<^verbatim>\<open>connect\<close> creates, is \<^verbatim>\<open>localhost\<close>. Otherwise the same holds with the key,
  the pattern and the configured host unchanged. In both modes \<^verbatim>\<open>executePipeline\<close> runs the
  commands of its builder as they are, with no prefix.
\<close>

theorem test_mode_prefix:
  assumes "isReady (caches w this)" and "redis (caches w this) = Some h"
    and "unavailable w h = None" and "\<not> isNil v"
    and "\<not> isReady (caches w0 this)" and "connectPromise (caches w0 this) = None"
  shows "(NODE_ENV e = Some ''test'' \<longrightarrow>
            getKey e k = ''test:'' @ k
          \<and> set_op e this k v ttl w =
              (case send h (case ttl of
                              None \<Rightarrow> SET (''test:'' @ k) (stringify e v)
                            | Some t \<Rightarrow>
                                if truthy t then SETEX (''test:'' @ k) t (stringify e v)
                                else SET (''test:'' @ k) (stringify e v)) w of
                 (Inl err, w') \<Rightarrow> (Inl err, w')
               | (Inr r, w') \<Rightarrow> (Inr (), w'))
          \<and> (refuses (server w) (SET (''test:'' @ k) (stringify e v)) = None \<longrightarrow>
                set_op e this k v None w =
                  (Inr (), w\<lparr>server := (server w)\<lparr>store :=
                     AList.update (''test:'' @ k) (stringify e v, None) (store (server w))\<rparr>\<rparr>))
          \<and> get e this k w =
              Inr (case map_of (store (server w)) (''test:'' @ k) of
                     None \<Rightarrow> JUndefined
                   | Some (txt, x) \<Rightarrow>
                       (case parse e txt of Some v \<Rightarrow> v | None \<Rightarrow> JStr txt))
          \<and> (refuses (server w) (DEL (''test:'' @ k)) = None \<longrightarrow>
                del e this k w =
                  (Inr (), w\<lparr>server := (server w)\<lparr>store :=
                     AList.delete (''test:'' @ k) (store (server w))\<rparr>\<rparr>))
          \<and> keys e this (Some k) w =
              Inr (filter (matches (server w) (''test:'' @ k)) (map fst (store (server w))))
          \<and> keys e this None w =
              Inr (filter (matches (server w) ''test:*'') (map fst (store (server w))))
          \<and> setBulk_operations e items [] =
              map (\<lambda>it. case item_ttl it of
                     None \<Rightarrow> SET (''test:'' @ item_key it) (stringify e (item_value it))
                   | Some t \<Rightarrow>
                       if truthy t
                       then SETEX (''test:'' @ item_key it) t (stringify e (item_value it))
                       else SET (''test:'' @ item_key it) (stringify e (item_value it))) items
          \<and> getHost e cfg = ''localhost''
          \<and> opt_host (options (clients (snd (connect e None this w0)) (nclients w0)))
              = ''localhost'')
       \<and> (NODE_ENV e \<noteq> Some ''test'' \<longrightarrow>
            getKey e k = k
          \<and> set_op e this k v ttl w =
              (case send h (case ttl of
                              None \<Rightarrow> SET k (stringify e v)
                            | Some t \<Rightarrow>
                                if truthy t then SETEX k t (stringify e v)
                                else SET k (stringify e v)) w of
                 (Inl err, w') \<Rightarrow> (Inl err, w')
               | (Inr r, w') \<Rightarrow> (Inr (), w'))
          \<and> (refuses (server w) (SET k (stringify e v)) = None \<longrightarrow>
                set_op e this k v None w =
                  (Inr (), w\<lparr>server := (server w)\<lparr>store :=
                     AList.update k (stringify e v, None) (store (server w))\<rparr>\<rparr>))
          \<and> get e this k w =
              Inr (case map_of (store (server w)) k of
                     None \<Rightarrow> JUndefined
                   | Some (txt, x) \<Rightarrow>
                       (case parse e txt of Some v \<Rightarrow> v | None \<Rightarrow> JStr txt))
          \<and> (refuses (server w) (DEL k) = None \<longrightarrow>
                del e this k w =
                  (Inr (), w\<lparr>server := (server w)\<lparr>store :=
                     AList.delete k (store (server w))\<rparr>\<rparr>))
          \<and> keys e this (Some k) w =
              Inr (filter (matches (server w) k) (map fst (store (server w))))
          \<and> keys e this None w =
              Inr (filter (matches (server w) ''*'') (map fst (store (server w))))
          \<and> setBulk_operations e items [] =
              map (\<lambda>it. case item_ttl it of
                     None \<Rightarrow> SET (item_key it) (stringify e (item_value it))
                   | Some t \<Rightarrow>
                       if truthy t then SETEX (item_key it) t (stringify e (item_value it))
                       else SET (item_key it) (stringify e (item_value it))) items
          \<and> getHost e cfg = host cfg
          \<and> opt_host (options (clients (snd (connect e None this w0)) (nclients w0)))
              = host (config (caches w0 this)))
       \<and> executePipeline this operations w =
           (Inr (fst (exec (operations []) (server w))),
            w\<lparr>server := snd (exec (operations []) (server w))\<rparr>)"
proof -
  note conn = assms(1,2)
  note up = assms(1-3)
  have client: "options (clients (snd (connect e None this w0)) (nclients w0)) =
      getRedisConfig e (config (caches w0 this))"
    by (simp add: connect_attempt(2) [OF assms(5,6)] new_Redis_def)
  have pipe: "executePipeline this operations w =
           (Inr (fst (exec (operations []) (server w))),
            w\<lparr>server := snd (exec (operations []) (server w))\<rparr>)"
    by (rule executePipeline_runs [OF up])
  have test: "NODE_ENV e = Some ''test'' \<longrightarrow>
            getKey e k = ''test:'' @ k
          \<and> set_op e this k v ttl w =
              (case send h (case ttl of
                              None \<Rightarrow> SET (''test:'' @ k) (stringify e v)
                            | Some t \<Rightarrow>
                                if truthy t then SETEX (''test:'' @ k) t (stringify e v)
                                else SET (''test:'' @ k) (stringify e v)) w of
                 (Inl err, w') \<Rightarrow> (Inl err, w')
               | (Inr r, w') \<Rightarrow> (Inr (), w'))
          \<and> (refuses (server w) (SET (''test:'' @ k) (stringify e v)) = None \<longrightarrow>
                set_op e this k v None w =
                  (Inr (), w\<lparr>server := (server w)\<lparr>store :=
                     AList.update (''test:'' @ k) (stringify e v, None) (store (server w))\<rparr>\<rparr>))
          \<and> get e this k w =
              Inr (case map_of (store (server w)) (''test:'' @ k) of
                     None \<Rightarrow> JUndefined
                   | Some (txt, x) \<Rightarrow>
                       (case parse e txt of Some v \<Rightarrow> v | None \<Rightarrow> JStr txt))
          \<and> (refuses (server w) (DEL (''test:'' @ k)) = None \<longrightarrow>
                del e this k w =
                  (Inr (), w\<lparr>server := (server w)\<lparr>store :=
                     AList.delete (''test:'' @ k) (store (server w))\<rparr>\<rparr>))
          \<and> keys e this (Some k) w =
              Inr (filter (matches (server w) (''test:'' @ k)) (map fst (store (server w))))
          \<and> keys e this None w =
              Inr (filter (matches (server w) ''test:*'') (map fst (store (server w))))
          \<and> setBulk_operations e items [] =
              map (\<lambda>it. case item_ttl it of
                     None \<Rightarrow> SET (''test:'' @ item_key it) (stringify e (item_value it))
                   | Some t \<Rightarrow>
                       if truthy t
                       then SETEX (''test:'' @ item_key it) t (stringify e (item_value it))
                       else SET (''test:'' @ item_key it) (stringify e (item_value it))) items
          \<and> getHost e cfg = ''localhost''
          \<and> opt_host (options (clients (snd (connect e None this w0)) (nclients w0)))
              = ''localhost''"
  proof
    assume t: "NODE_ENV e = Some ''test''"
    note key = test_key [OF t]
    have star: "getKey e ''*'' = ''test:*''" using key [of "''*''"] by simp
    show "getKey e k = ''test:'' @ k
          \<and> set_op e this k v ttl w =
              (case send h (case ttl of
                              None \<Rightarrow> SET (''test:'' @ k) (stringify e v)
                            | Some t \<Rightarrow>
                                if truthy t then SETEX (''test:'' @ k) t (stringify e v)
                                else SET (''test:'' @ k) (stringify e v)) w of
                 (Inl err, w') \<Rightarrow> (Inl err, w')
               | (Inr r, w') \<Rightarrow> (Inr (), w'))
          \<and> (refuses (server w) (SET (''test:'' @ k) (stringify e v)) = None \<longrightarrow>
                set_op e this k v None w =
                  (Inr (), w\<lparr>server := (server w)\<lparr>store :=
                     AList.update (''test:'' @ k) (stringify e v, None) (store (server w))\<rparr>\<rparr>))
          \<and> get e this k w =
              Inr (case map_of (store (server w)) (''test:'' @ k) of
                     None \<Rightarrow> JUndefined
                   | Some (txt, x) \<Rightarrow>
                       (case parse e txt of Some v \<Rightarrow> v | None \<Rightarrow> JStr txt))
          \<and> (refuses (server w) (DEL (''test:'' @ k)) = None \<longrightarrow>
                del e this k w =
                  (Inr (), w\<lparr>server := (server w)\<lparr>store :=
                     AList.delete (''test:'' @ k) (store (server w))\<rparr>\<rparr>))
          \<and> keys e this (Some k) w =
              Inr (filter (matches (server w) (''test:'' @ k)) (map fst (store (server w))))
          \<and> keys e this None w =
              Inr (filter (matches (server w) ''test:*'') (map fst (store (server w))))
          \<and> setBulk_operations e items [] =
              map (\<lambda>it. case item_ttl it of
                     None \<Rightarrow> SET (''test:'' @ item_key it) (stringify e (item_value it))
                   | Some t \<Rightarrow>
                       if truthy t
                       then SETEX (''test:'' @ item_key it) t (stringify e (item_value it))
                       else SET (''test:'' @ item_key it) (stringify e (item_value it))) items
          \<and> getHost e cfg = ''localhost''
          \<and> opt_host (options (clients (snd (connect e None this w0)) (nclients w0)))
              = ''localhost''"
      using set_op_sends [OF conn assms(4), of e k ttl]
        set_op_stores [OF up assms(4), of e k]
        get_reads [OF up, of e k]
        del_deletes [OF up, of e k]
        keys_lists [OF up, of e "Some k"]
        keys_lists [OF up, of e None]
        setBulk_operations_queue [of e items "[]"]
        test_host [OF t]
      unfolding key star client
      by (simp add: getRedisConfig_def)
  qed
  have plain: "NODE_ENV e \<noteq> Some ''test'' \<longrightarrow>
            getKey e k = k
          \<and> set_op e this k v ttl w =
              (case send h (case ttl of
                              None \<Rightarrow> SET k (stringify e v)
                            | Some t \<Rightarrow>
                                if truthy t then SETEX k t (stringify e v)
                                else SET k (stringify e v)) w of
                 (Inl err, w') \<Rightarrow> (Inl err, w')
               | (Inr r, w') \<Rightarrow> (Inr (), w'))
          \<and> (refuses (server w) (SET k (stringify e v)) = None \<longrightarrow>
                set_op e this k v None w =
                  (Inr (), w\<lparr>server := (server w)\<lparr>store :=
                     AList.update k (stringify e v, None) (store (server w))\<rparr>\<rparr>))
          \<and> get e this k w =
              Inr (case map_of (store (server w)) k of
                     None \<Rightarrow> JUndefined
                   | Some (txt, x) \<Rightarrow>
                       (case parse e txt of Some v \<Rightarrow> v | None \<Rightarrow> JStr txt))
          \<and> (refuses (server w) (DEL k) = None \<longrightarrow>
                del e this k w =
                  (Inr (), w\<lparr>server := (server w)\<lparr>store :=
                     AList.delete k (store (server w))\<rparr>\<rparr>))
          \<and> keys e this (Some k) w =
              Inr (filter (matches (server w) k) (map fst (store (server w))))
          \<and> keys e this None w =
              Inr (filter (matches (server w) ''*'') (map fst (store (server w))))
          \<and> setBulk_operations e items [] =
              map (\<lambda>it. case item_ttl it of
                     None \<Rightarrow> SET (item_key it) (stringify e (item_value it))
                   | Some t \<Rightarrow>
                       if truthy t then SETEX (item_key it) t (stringify e (item_value it))
                       else SET (item_key it) (stringify e (item_value it))) items
          \<and> getHost e cfg = host cfg
          \<and> opt_host (options (clients (snd (connect e None this w0)) (nclients w0)))
              = host (config (caches w0 this))"
  proof
    assume p: "NODE_ENV e \<noteq> Some ''test''"
    have key: "\<And>x. getKey e x = x" by (rule plain_key [OF p])
    show "getKey e k = k
          \<and> set_op e this k v ttl w =
              (case send h (case ttl of
                              None \<Rightarrow> SET k (stringify e v)
                            | Some t \<Rightarrow>
                                if truthy t then SETEX k t (stringify e v)
                                else SET k (stringify e v)) w of
                 (Inl err, w') \<Rightarrow> (Inl err, w')
               | (Inr r, w') \<Rightarrow> (Inr (), w'))
          \<and> (refuses (server w) (SET k (stringify e v)) = None \<longrightarrow>
                set_op e this k v None w =
                  (Inr (), w\<lparr>server := (server w)\<lparr>store :=
                     AList.update k (stringify e v, None) (store (server w))\<rparr>\<rparr>))
          \<and> get e this k w =
              Inr (case map_of (store (server w)) k of
                     None \<Rightarrow> JUndefined
                   | Some (txt, x) \<Rightarrow>
                       (case parse e txt of Some v \<Rightarrow> v | None \<Rightarrow> JStr txt))
          \<and> (refuses (server w) (DEL k) = None \<longrightarrow>
                del e this k w =
                  (Inr (), w\<lparr>server := (server w)\<lparr>store :=
                     AList.delete k (store (server w))\<rparr>\<rparr>))
          \<and> keys e this (Some k) w =
              Inr (filter (matches (server w) k) (map fst (store (server w))))
          \<and> keys e this None w =
              Inr (filter (matches (server w) ''*'') (map fst (store (server w))))
          \<and> setBulk_operations e items [] =
              map (\<lambda>it. case item_ttl it of
                     None \<Rightarrow> SET (item_key it) (stringify e (item_value it))
                   | Some t \<Rightarrow>
                       if truthy t then SETEX (item_key it) t (stringify e (item_value it))
                       else SET (item_key it) (stringify e (item_value it))) items
          \<and> getHost e cfg = host cfg
          \<and> opt_host (options (clients (snd (connect e None this w0)) (nclients w0)))
              = host (config (caches w0 this))"
      using set_op_sends [OF conn assms(4), of e k ttl]
        set_op_stores [OF up assms(4), of e k]
        get_reads [OF up, of e k]
        del_deletes [OF up, of e k]
        keys_lists [OF up, of e "Some k"]
        keys_lists [OF up, of e None]
        setBulk_operations_queue [of e items "[]"]
        plain_host [OF p]
      unfolding key client
      by (simp add: getRedisConfig_def)
  qed
  from test plain pipe show ?thesis by (intro conjI)
qed

theorem test_mode_prefix_witness:
  "NODE_ENV test_env = Some ''test''
   \<and> isReady (caches stocked_world 0)
   \<and> unavailable stocked_world 0 = None
   \<and> getKey test_env ''foo'' = ''test:foo''
   \<and> store (server (snd (set_op test_env 0 ''foo'' (JStr ''bar'') None connected_world)))
       = [(''test:foo'', sample_stringify (JStr ''bar''), None)]
   \<and> get test_env 0 ''json'' stocked_world = Inr (JStr ''bar'')
   \<and> get test_env 0 ''test:json'' stocked_world = Inr JUndefined
   \<and> store (server (snd (del test_env 0 ''json'' stocked_world)))
       = [(''test:plain'', ''not-json'', None), (''test:feeds:seen'', ''true'', Some (Num 86400))]
   \<and> keys test_env 0 None stocked_world
       = Inr [''test:json'', ''test:plain'', ''test:feeds:seen'']
   \<and> keys test_env 0 (Some ''feeds:*'') stocked_world = Inr [''test:feeds:seen'']
   \<and> setBulk_operations test_env sample_items []
       = [ SET ''test:a'' (sample_stringify (JStr ''1'')),
           SETEX ''test:b'' (Num (- 5)) (sample_stringify (JStr ''2'')),
           SET ''test:c'' (sample_stringify (JStr ''3'')) ]
   \<and> getHost test_env sample_config = ''localhost''
   \<and> opt_host (options (clients (snd (connect test_env None 0 initialized_world))
         (nclients initialized_world))) = ''localhost''
   \<and> NODE_ENV production_env \<noteq> Some ''test''
   \<and> getKey production_env ''foo'' = ''foo''
   \<and> store (server (snd (set_op production_env 0 ''foo'' (JStr ''bar'') None connected_world)))
       = [(''foo'', sample_stringify (JStr ''bar''), None)]
   \<and> get production_env 0 ''test:json'' stocked_world = Inr (JStr ''bar'')
   \<and> keys production_env 0 None stocked_world
       = Inr [''test:json'', ''test:plain'', ''test:feeds:seen'']
   \<and> getHost production_env sample_config = ''cache.internal''
   \<and> opt_host (options (clients (snd (connect production_env None 0 initialized_world))
         (nclients initialized_world))) = ''cache.internal''
   \<and> store (server (snd (executePipeline 0 (\<lambda>p. p @ [SET ''foo'' ''1'']) connected_world)))
       = [(''foo'', ''1'', None)]"
proof -
  have t: "NODE_ENV test_env = Some ''test''" by (simp add: test_env_def)
  have p: "NODE_ENV production_env \<noteq> Some ''test''" by (simp add: production_env_def)
  have v: "\<not> isNil (JStr ''bar'')" by simp
  have i: "\<not> isReady (caches initialized_world 0)"
    "connectPromise (caches initialized_world 0) = None"
    "config (caches initialized_world 0) = sample_config"
    by (simp_all add: initialized_cache new_Cache_def)
  note c = connected_world_ready
  note s = stocked_world_ready(1-3)
  note tc = test_mode_prefix [OF c v i(1,2), where e = test_env and cfg = sample_config
      and items = sample_items and ttl = "Some (Num 60)" and operations = "\<lambda>p. p @ [SET ''foo'' ''1'']"]
  note ts = test_mode_prefix [OF s v i(1,2), where e = test_env and cfg = sample_config
      and items = sample_items and ttl = "Some (Num 60)" and operations = "\<lambda>p. p"]
  note pc = test_mode_prefix [OF c v i(1,2), where e = production_env and cfg = sample_config
      and items = sample_items and ttl = "Some (Num 60)" and operations = "\<lambda>p. p"]
  note ps = test_mode_prefix [OF s v i(1,2), where e = production_env and cfg = sample_config
      and items = sample_items and ttl = "Some (Num 60)" and operations = "\<lambda>p. p"]
  have str: "stringify test_env = sample_stringify" "parse test_env = sample_parse"
    "stringify production_env = sample_stringify" "parse production_env = sample_parse"
    by (simp_all add: test_env_def production_env_def)
  have srv: "store sample_server = []" "refuses sample_server (SET a b) = None"
    "refuses sample_server (DEL a) = None"
    "matches sample_server ''test:*'' ''test:json''" "matches sample_server ''test:*'' ''test:plain''"
    "matches sample_server ''test:*'' ''test:feeds:seen''"
    "\<not> matches sample_server ''test:feeds:*'' ''test:json''"
    "\<not> matches sample_server ''test:feeds:*'' ''test:plain''"
    "matches sample_server ''test:feeds:*'' ''test:feeds:seen''"
    "matches sample_server ''*'' ''test:json''" "matches sample_server ''*'' ''test:plain''"
    "matches sample_server ''*'' ''test:feeds:seen''"
    for a b
    by (simp_all add: sample_server_def)
  have sts: "server stocked_world = sample_server\<lparr>store := store (server stocked_world)\<rparr>"
    by (simp add: stocked_world_def)
  have rs: "refuses (server stocked_world) = refuses sample_server"
    "matches (server stocked_world) = matches sample_server"
    by (simp_all add: stocked_world_def)
  have pj: "sample_parse (sample_stringify (JStr ''bar'')) = Some (JStr ''bar'')"
    by (simp add: sample_parse_def)
  have "getKey test_env ''foo'' = ''test:foo''" using tc [of "''foo''"] t by simp
  moreover have "store (server (snd (set_op test_env 0 ''foo'' (JStr ''bar'') None
      connected_world))) = [(''test:foo'', sample_stringify (JStr ''bar''), None)]"
    using tc [of "''foo''"] t by (simp add: connected_world_fields str srv del: sample_stringify.simps)
  moreover have "get test_env 0 ''json'' stocked_world = Inr (JStr ''bar'')"
    using ts [of "''json''"] t by (simp add: stocked_world_store str pj del: sample_stringify.simps)
  moreover have "get test_env 0 ''test:json'' stocked_world = Inr JUndefined"
    using ts [of "''test:json''"] t by (simp add: stocked_world_store)
  moreover have "store (server (snd (del test_env 0 ''json'' stocked_world)))
       = [(''test:plain'', ''not-json'', None), (''test:feeds:seen'', ''true'', Some (Num 86400))]"
    using ts [of "''json''"] t by (simp add: stocked_world_store rs srv del: sample_stringify.simps)
  moreover have "keys test_env 0 None stocked_world
       = Inr [''test:json'', ''test:plain'', ''test:feeds:seen'']"
    using ts [of "''json''"] t by (simp add: stocked_world_store rs srv del: sample_stringify.simps)
  moreover have "keys test_env 0 (Some ''feeds:*'') stocked_world = Inr [''test:feeds:seen'']"
    using ts [of "''feeds:*''"] t srv(7-9)
    by (simp add: stocked_world_store rs del: sample_stringify.simps)
  moreover have "setBulk_operations test_env sample_items []
       = [ SET ''test:a'' (sample_stringify (JStr ''1'')),
           SETEX ''test:b'' (Num (- 5)) (sample_stringify (JStr ''2'')),
           SET ''test:c'' (sample_stringify (JStr ''3'')) ]"
    using tc [of "''foo''"] t by (simp add: sample_items_def str del: sample_stringify.simps)
  moreover have "getHost test_env sample_config = ''localhost''"
    using tc [of "''foo''"] t by simp
  moreover have "opt_host (options (clients (snd (connect test_env None 0 initialized_world))
         (nclients initialized_world))) = ''localhost''"
    using tc [of "''foo''"] t by simp
  moreover have "getKey production_env ''foo'' = ''foo''" using pc [of "''foo''"] p by simp
  moreover have "store (server (snd (set_op production_env 0 ''foo'' (JStr ''bar'') None
      connected_world))) = [(''foo'', sample_stringify (JStr ''bar''), None)]"
    using pc [of "''foo''"] p by (simp add: connected_world_fields str srv del: sample_stringify.simps)
  moreover have "get production_env 0 ''test:json'' stocked_world = Inr (JStr ''bar'')"
    using ps [of "''test:json''"] p
    by (simp add: stocked_world_store str pj del: sample_stringify.simps)
  moreover have "keys production_env 0 None stocked_world
       = Inr [''test:json'', ''test:plain'', ''test:feeds:seen'']"
    using ps [of "''json''"] p by (simp add: stocked_world_store rs srv del: sample_stringify.simps)
  moreover have "getHost production_env sample_config = ''cache.internal''"
    using pc [of "''foo''"] p by (simp add: sample_config_def)
  moreover have "opt_host (options (clients (snd (connect production_env None 0
      initialized_world)) (nclients initialized_world))) = ''cache.internal''"
    using pc [of "''foo''"] p by (simp add: i(3) sample_config_def)
  moreover have "store (server (snd (executePipeline 0 (\<lambda>p. p @ [SET ''foo'' ''1''])
      connected_world))) = [(''foo'', ''1'', None)]"
    using tc [of "''foo''"] by (simp add: connected_world_fields submit_def srv)
  ultimately show ?thesis using t p s(1,3) by (intro conjI)
qed

subsection \<open>The singleton\<close>

text \<open>
  C9. With no instance and no configuration the accessor fails with \<open>NotInitialized\<close>;
  with no instance and a configuration it allocates a new \<^verbatim>\<open>Cache\<close> object for that
  configuration, stores it and returns it; with an instance it returns that instance and
  changes nothing, whatever argument it is given. \<^verbatim>\<open>cacheInstance\<close> is the same function.
\<close>

theorem getInstance_singleton:
  "(Cache_instance w = None \<longrightarrow> getInstance None w = (Inl NotInitialized, w))
   \<and> (Cache_instance w = None \<longrightarrow>
        (\<exists>w'. getInstance (Some cfg) w = (Inr (ncaches w), w')
           \<and> Cache_instance w' = Some (ncaches w)
           \<and> caches w' (ncaches w) = new_Cache cfg
           \<and> ncaches w' = Suc (ncaches w)
           \<and> (\<forall>i. i \<noteq> ncaches w \<longrightarrow> caches w' i = caches w i)))
   \<and> (\<forall>i. Cache_instance w = Some i \<longrightarrow> getInstance later w = (Inr i, w))
   \<and> cacheInstance later w = getInstance later w"
  by (auto simp: getInstance_def cacheInstance_def Let_def split: option.splits)

theorem getInstance_singleton_witness:
  "getInstance None fresh_world = (Inl NotInitialized, fresh_world)
   \<and> (\<exists>w'. getInstance (Some sample_config) fresh_world = (Inr (ncaches fresh_world), w')
         \<and> Cache_instance w' = Some (ncaches fresh_world)
         \<and> caches w' (ncaches fresh_world) = new_Cache sample_config
         \<and> ncaches w' = Suc (ncaches fresh_world)
         \<and> (\<forall>i. i \<noteq> ncaches fresh_world \<longrightarrow> caches w' i = caches fresh_world i))
   \<and> getInstance (Some other_config) initialized_world = (Inr 0, initialized_world)
   \<and> config (caches initialized_world 0) = sample_config
   \<and> cacheInstance None connected_world = (Inr 0, connected_world)"
proof -
  have i: "Cache_instance fresh_world = None" "Cache_instance initialized_world = Some 0"
    "Cache_instance connected_world = Some 0"
    by (simp_all add: fresh_world_def initialized_world_eq connected_world_fields)
  note a = getInstance_singleton [of fresh_world sample_config None]
  note b = getInstance_singleton [of initialized_world sample_config "Some other_config"]
  note c = getInstance_singleton [of connected_world sample_config None]
  have "getInstance None fresh_world = (Inl NotInitialized, fresh_world)"
    using a i(1) by blast
  moreover have "\<exists>w'. getInstance (Some sample_config) fresh_world = (Inr (ncaches fresh_world), w')
         \<and> Cache_instance w' = Some (ncaches fresh_world)
         \<and> caches w' (ncaches fresh_world) = new_Cache sample_config
         \<and> ncaches w' = Suc (ncaches fresh_world)
         \<and> (\<forall>i. i \<noteq> ncaches fresh_world \<longrightarrow> caches w' i = caches fresh_world i)"
    using a i(1) by blast
  moreover have "getInstance (Some other_config) initialized_world = (Inr 0, initialized_world)"
    using b i(2) by blast
  moreover have "config (caches initialized_world 0) = sample_config"
    by (simp add: initialized_cache new_Cache_def)
  moreover have "cacheInstance None connected_world = (Inr 0, connected_world)"
    using c i(3) by metis
  ultimately show ?thesis by (intro conjI)
qed

subsection \<open>The expiry check\<close>

text \<open>
  A negative expiry is truthy: it selects the set-with-expiry primitive, which the sample
  server refuses, where the same write with no expiry succeeds.
\<close>

theorem negative_ttl_uses_setex:
  "setBulk_operations test_env
      [\<lparr> item_key = ''k'', item_value = JStr ''v'', item_ttl = Some (Num (- 1)) \<rparr>] []
     = [SETEX ''test:k'' (Num (- 1)) (sample_stringify (JStr ''v''))]
   \<and> fst (set_op test_env 0 ''k'' (JStr ''v'') (Some (Num (- 1))) connected_world)
       = Inl (Upstream ''ERR invalid expire time in setex'')
   \<and> fst (set_op test_env 0 ''k'' (JStr ''v'') None connected_world) = Inr ()
   \<and> \<not> (0::rat) < - 1"
  by (simp add: set_op_def getConnection_def connected_world_fields send_def unavailable_def
      submit_def sample_server_def getKey_def test_env_def Let_def)

text \<open>
  C10, as amended. With \<open>ttl = 0\<close>, \<^verbatim>\<open>set\<close> behaves as with no \<open>ttl\<close>: it sends the
  plain set, and the value is stored with no expiry. Every strictly positive \<open>ttl\<close>,
  infinity included, sends the set-with-expiry primitive, and so does a negative one.
  \<^verbatim>\<open>NaN\<close>, like zero, is falsy and takes the plain set. \<^verbatim>\<open>setBulk\<close> queues its commands
  by the same rule.
\<close>

theorem ttl_selects_primitive:
  assumes "\<not> isNil v" and "isReady (caches w this)" and "redis (caches w this) = Some h"
  shows "set_op e this k v (Some (Num 0)) w = set_op e this k v None w
       \<and> (unavailable w h = None
            \<and> refuses (server w) (SET (getKey e k) (stringify e v)) = None \<longrightarrow>
          fst (set_op e this k v (Some (Num 0)) w) = Inr ()
          \<and> map_of (store (server (snd (set_op e this k v (Some (Num 0)) w)))) (getKey e k)
              = Some (stringify e v, None))
       \<and> (0 < q \<longrightarrow>
            set_op e this k v (Some (Num q)) w =
              (case send h (SETEX (getKey e k) (Num q) (stringify e v)) w of
                 (Inl err, w') \<Rightarrow> (Inl err, w')
               | (Inr r, w') \<Rightarrow> (Inr (), w')))
       \<and> set_op e this k v (Some PosInfinity) w =
            (case send h (SETEX (getKey e k) PosInfinity (stringify e v)) w of
               (Inl err, w') \<Rightarrow> (Inl err, w')
             | (Inr r, w') \<Rightarrow> (Inr (), w'))
       \<and> (n < 0 \<longrightarrow>
            set_op e this k v (Some (Num n)) w =
              (case send h (SETEX (getKey e k) (Num n) (stringify e v)) w of
                 (Inl err, w') \<Rightarrow> (Inl err, w')
               | (Inr r, w') \<Rightarrow> (Inr (), w')))
       \<and> set_op e this k v (Some NaN) w = set_op e this k v None w
       \<and> setBulk_operations e [it\<lparr>item_ttl := Some (Num 0)\<rparr>] p
           = p @ [SET (getKey e (item_key it)) (stringify e (item_value it))]
       \<and> (0 < q \<longrightarrow>
            setBulk_operations e [it\<lparr>item_ttl := Some (Num q)\<rparr>] p
              = p @ [SETEX (getKey e (item_key it)) (Num q) (stringify e (item_value it))])
       \<and> setBulk_operations e [it\<lparr>item_ttl := Some PosInfinity\<rparr>] p
           = p @ [SETEX (getKey e (item_key it)) PosInfinity (stringify e (item_value it))]
       \<and> (n < 0 \<longrightarrow>
            setBulk_operations e [it\<lparr>item_ttl := Some (Num n)\<rparr>] p
              = p @ [SETEX (getKey e (item_key it)) (Num n) (stringify e (item_value it))])
       \<and> setBulk_operations e [it\<lparr>item_ttl := Some NaN\<rparr>] p
           = p @ [SET (getKey e (item_key it)) (stringify e (item_value it))]"
  using assms gate_open [OF assms(2,3)]
  by (auto simp: set_op_def send_def submit_def Let_def update_Some_unfold
           split: option.splits prod.splits sum.splits)

theorem ttl_selects_primitive_witness:
  "\<not> isNil (JStr ''bar'')
   \<and> isReady (caches connected_world 0)
   \<and> redis (caches connected_world 0) = Some 0
   \<and> unavailable connected_world 0 = None
   \<and> refuses (server connected_world)
        (SET (getKey test_env ''foo'') (stringify test_env (JStr ''bar''))) = None
   \<and> (0::rat) < 60
   \<and> (- 1::rat) < 0
   \<and> set_op test_env 0 ''foo'' (JStr ''bar'') (Some (Num 0)) connected_world
       = set_op test_env 0 ''foo'' (JStr ''bar'') None connected_world
   \<and> fst (set_op test_env 0 ''foo'' (JStr ''bar'') (Some (Num 0)) connected_world) = Inr ()
   \<and> map_of (store (server (snd (set_op test_env 0 ''foo'' (JStr ''bar'') (Some (Num 0))
         connected_world)))) (getKey test_env ''foo'')
       = Some (stringify test_env (JStr ''bar''), None)
   \<and> set_op test_env 0 ''foo'' (JStr ''bar'') (Some (Num 60)) connected_world
       = (case send 0 (SETEX (getKey test_env ''foo'') (Num 60)
                         (stringify test_env (JStr ''bar''))) connected_world of
            (Inl err, w') \<Rightarrow> (Inl err, w')
          | (Inr r, w') \<Rightarrow> (Inr (), w'))
   \<and> set_op test_env 0 ''foo'' (JStr ''bar'') (Some (Num (- 1))) connected_world
       = (case send 0 (SETEX (getKey test_env ''foo'') (Num (- 1))
                         (stringify test_env (JStr ''bar''))) connected_world of
            (Inl err, w') \<Rightarrow> (Inl err, w')
          | (Inr r, w') \<Rightarrow> (Inr (), w'))
   \<and> set_op test_env 0 ''foo'' (JStr ''bar'') (Some NaN) connected_world
       = set_op test_env 0 ''foo'' (JStr ''bar'') None connected_world
   \<and> setBulk_operations test_env [(hd sample_items)\<lparr>item_ttl := Some (Num 0)\<rparr>] []
       = [] @ [SET (getKey test_env (item_key (hd sample_items)))
                 (stringify test_env (item_value (hd sample_items)))]
   \<and> setBulk_operations test_env [(hd sample_items)\<lparr>item_ttl := Some (Num 60)\<rparr>] []
       = [] @ [SETEX (getKey test_env (item_key (hd sample_items))) (Num 60)
                 (stringify test_env (item_value (hd sample_items)))]
   \<and> setBulk_operations test_env [(hd sample_items)\<lparr>item_ttl := Some (Num (- 1))\<rparr>] []
       = [] @ [SETEX (getKey test_env (item_key (hd sample_items))) (Num (- 1))
                 (stringify test_env (item_value (hd sample_items)))]"
proof -
  have n: "\<not> isNil (JStr ''bar'')" by simp
  note ready = connected_world_ready
  note t = ttl_selects_primitive [OF n ready(1,2), of test_env "''foo''" 60 "- 1"
      "hd sample_items" "[]"]
  have ok: "refuses (server connected_world)
          (SET (getKey test_env ''foo'') (stringify test_env (JStr ''bar''))) = None"
    by (simp add: connected_world_fields sample_server_def)
  have pos: "(0::rat) < 60" and neg: "(- 1::rat) < 0" by simp_all
  show ?thesis using n ready t ok pos neg by blast
qed

end
